theory Spec2Isabelle
  imports Main
begin

section \<open>Data model (frontend/src/types)\<close>

text \<open>
  The types of the TypeScript sources. A JavaScript \<open>number\<close> is only stored and passed
  on by the modelled code (no arithmetic), so it is an integer here. An optional field
  (\<open>preview_svg?\<close>, \<open>linked_handles?\<close>, \<open>center?\<close>) is an \<open>option\<close>. Field names that
  two interfaces share carry a prefix here, since record fields are global constants.
\<close>

type_synonym number = int

datatype json = JNull | JBool bool | JNum number | JStr string
  | JArr "json list" | JObj "(string \<times> json) list"

record LayerInfo =
  layer_name :: string
  layer_color :: number
  layer_color_name :: string
  layer_entity_count :: number

record ColorInfo =
  aci :: number
  color_name :: string
  hex :: string
  color_count :: number

record DxfInfo =
  session_id :: string
  filename :: string
  entity_count :: number
  layers :: "LayerInfo list"
  colors_used :: "ColorInfo list"

record OperationCommand =
  operation :: string
  params :: "(string \<times> json) list"
  confidence :: number
  explanation :: string

record OperationResult =
  success :: bool
  affected_count :: number
  message :: string
  preview_svg :: "string option"

record PartInfo =
  part_name :: string
  text_handle :: string
  linked_count :: number
  part_confidence :: number
  linked_handles :: "string list option"
  center :: "(number \<times> number) option"

record InterpretResponse =
  interpret_success :: bool
  commands :: "OperationCommand list"
  interpret_message :: string
  used_ai :: bool

datatype AppState = Initial | Loading | Ready | Previewing | Executing | Error

section \<open>The document service as seen by the hook (frontend/src/services/api)\<close>

text \<open>
  Every method of \<open>api\<close> returns a promise. The hook awaits it inside \<open>try\<close>/\<open>catch\<close>, so
  all it observes is whether the promise resolved, and with what, or rejected, and with
  which thrown value. The outcome of each remote call is therefore an argument of the
  operation that awaits it. A thrown value is either an \<open>Error\<close> object with its message
  or something else (the \<open>e instanceof Error\<close> test of every handler).
\<close>

datatype thrown = ErrorObject string | OtherThrown

datatype 'a promise = Resolved 'a | Rejected thrown

record InterpretContext =
  ctx_layers :: "LayerInfo list"
  ctx_colors_used :: "ColorInfo list"
  ctx_parts :: "PartInfo list"
  selected_parts :: "string list"

text \<open>The remote calls, with the arguments the hook passes; \<open>issued\<close> below logs them.\<close>

datatype api_call =
    Api_uploadDxf string
  | Api_getPreview string
  | Api_analyzeParts string
  | Api_previewOperation string string "(string \<times> json) list"
  | Api_executeOperation string string "(string \<times> json) list"
  | Api_interpretCommand string string InterpretContext
  | Api_deleteSession string
  | Api_undo string
  | Api_redo string

section \<open>The hook state (frontend/src/hooks/useDxf.ts)\<close>

text \<open>
  The \<open>error\<close> field of the source is \<open>string | null\<close>. Its fixed texts are Japanese
  literals; each one is a constructor here, named after what it says, and \<open>Message\<close>
  carries a text that comes from a response or from a thrown \<open>Error\<close>.
\<close>

datatype notice =
    Message string
  | FileNotLoaded
  | UploadFailed
  | InterpretFailed
  | PreviewFailed
  | ExecuteFailed
  | UndoFailed
  | RedoFailed
  | Undone
  | Redone
  | AffectedEntities number

text \<open>
  One field per \<open>useState\<close> cell, \<open>sessionIdRef\<close> for the \<open>useRef\<close> cell, and \<open>issued\<close>,
  a log of the remote calls made so far (not in the source: it makes "issues no remote
  call" a statement about the state).
\<close>

record hook =
  state :: AppState
  dxfInfo :: "DxfInfo option"
  parts :: "PartInfo list"
  svg :: string
  originalSvg :: string
  pendingCommand :: "OperationCommand option"
  operationHistory :: "OperationResult list"
  error :: "notice option"
  sessionIdRef :: "string option"
  issued :: "api_call list"

definition initial :: hook where
  "initial = \<lparr> state = Initial, dxfInfo = None, parts = [], svg = [], originalSvg = [],
     pendingCommand = None, operationHistory = [], error = None, sessionIdRef = None,
     issued = [] \<rparr>"

text \<open>\<open>e instanceof Error ? e.message : fallback\<close>\<close>

definition thrownMessage :: "thrown \<Rightarrow> notice \<Rightarrow> notice" where
  "thrownMessage e fallback = (case e of ErrorObject m \<Rightarrow> Message m | OtherThrown \<Rightarrow> fallback)"

text \<open>
  \<open>if (result.preview_svg) setSvg(result.preview_svg)\<close>: an absent and an empty string are
  both falsy in JavaScript.
\<close>

definition setSvgIfPresent :: "string option \<Rightarrow> hook \<Rightarrow> hook" where
  "setSvgIfPresent v h =
     (case v of None \<Rightarrow> h | Some x \<Rightarrow> if x = [] then h else h\<lparr>svg := x\<rparr>)"

text \<open>\<open>result.preview_svg || ''\<close>\<close>

definition orEmpty :: "string option \<Rightarrow> string" where
  "orEmpty v = (case v of None \<Rightarrow> [] | Some x \<Rightarrow> x)"

definition call :: "api_call \<Rightarrow> hook \<Rightarrow> hook" where
  "call c h = h\<lparr>issued := issued h @ [c]\<rparr>"

text \<open>
  \<open>uploadFile\<close> (lines 49-73). The part analysis is started and not awaited; its result
  arrives through \<open>analyzePartsResolved\<close>.
\<close>

definition uploadFile :: "string \<Rightarrow> DxfInfo promise \<Rightarrow> string promise \<Rightarrow> hook \<Rightarrow> hook" where
  "uploadFile file uploaded previewed h =
     (let h1 = call (Api_uploadDxf file) (h\<lparr>state := Loading, error := None\<rparr>) in
      case uploaded of
        Rejected e \<Rightarrow> h1\<lparr>error := Some (thrownMessage e UploadFailed), state := Error\<rparr>
      | Resolved info \<Rightarrow>
          (let h2 = call (Api_getPreview (session_id info))
                      (h1\<lparr>dxfInfo := Some info, sessionIdRef := Some (session_id info)\<rparr>) in
           case previewed of
             Rejected e \<Rightarrow> h2\<lparr>error := Some (thrownMessage e UploadFailed), state := Error\<rparr>
           | Resolved v \<Rightarrow>
               (call (Api_analyzeParts (session_id info)) (h2\<lparr>svg := v, originalSvg := v\<rparr>))
                 \<lparr>state := Ready\<rparr>))"

definition analyzePartsResolved :: "PartInfo list \<Rightarrow> hook \<Rightarrow> hook" where
  "analyzePartsResolved partsdata h = h\<lparr>parts := partsdata\<rparr>"

text \<open>\<open>previewOperation\<close> (lines 112-135)\<close>

definition previewOperation :: "OperationCommand \<Rightarrow> OperationResult promise \<Rightarrow> hook \<Rightarrow> hook" where
  "previewOperation command r h =
     (case sessionIdRef h of
        None \<Rightarrow> h
      | Some sid \<Rightarrow>
          if sid = [] then h
          else
            (let h1 = call (Api_previewOperation sid (operation command) (params command))
                        (h\<lparr>pendingCommand := Some command, state := Previewing, error := None\<rparr>) in
             case r of
               Resolved result \<Rightarrow>
                 (setSvgIfPresent (preview_svg result) h1)
                   \<lparr>error := Some (AffectedEntities (affected_count result))\<rparr>
             | Rejected e \<Rightarrow> h1\<lparr>error := Some (thrownMessage e PreviewFailed), state := Ready\<rparr>))"

text \<open>
  \<open>interpretCommand\<close> (lines 75-110). \<open>dxfInfo?.layers || []\<close> is the layer list of the
  document info, or the empty list when there is none.
\<close>

definition interpretCommand ::
  "string \<Rightarrow> string list \<Rightarrow> InterpretResponse promise \<Rightarrow> OperationResult promise \<Rightarrow> hook \<Rightarrow> hook" where
  "interpretCommand txt selectedParts interpreted r h =
     (case sessionIdRef h of
        None \<Rightarrow> h\<lparr>error := Some FileNotLoaded\<rparr>
      | Some sid \<Rightarrow>
          if sid = [] then h\<lparr>error := Some FileNotLoaded\<rparr>
          else
            (let ctx = \<lparr> ctx_layers = (case dxfInfo h of None \<Rightarrow> [] | Some i \<Rightarrow> layers i),
                         ctx_colors_used = (case dxfInfo h of None \<Rightarrow> [] | Some i \<Rightarrow> colors_used i),
                         ctx_parts = parts h,
                         selected_parts = selectedParts \<rparr>;
                 h1 = call (Api_interpretCommand txt sid ctx) (h\<lparr>state := Loading, error := None\<rparr>) in
             case interpreted of
               Rejected e \<Rightarrow> h1\<lparr>error := Some (thrownMessage e InterpretFailed), state := Ready\<rparr>
             | Resolved result \<Rightarrow>
                 (if \<not> interpret_success result then
                    h1\<lparr>error := Some (Message (interpret_message result)), state := Ready\<rparr>
                  else
                    (case commands result of
                       [] \<Rightarrow> h1\<lparr>error := Some (Message (interpret_message result)), state := Ready\<rparr>
                     | command # _ \<Rightarrow>
                         previewOperation command r (h1\<lparr>pendingCommand := Some command\<rparr>)))))"

text \<open>\<open>executeOperation\<close> (lines 137-162)\<close>

definition executeOperation :: "OperationResult promise \<Rightarrow> hook \<Rightarrow> hook" where
  "executeOperation r h =
     (case sessionIdRef h of
        None \<Rightarrow> h
      | Some sid \<Rightarrow>
          if sid = [] then h
          else
            (case pendingCommand h of
               None \<Rightarrow> h
             | Some pending \<Rightarrow>
                 (let h1 = call (Api_executeOperation sid (operation pending) (params pending))
                             (h\<lparr>state := Executing, error := None\<rparr>) in
                  case r of
                    Resolved result \<Rightarrow>
                      (setSvgIfPresent (preview_svg result) h1)
                        \<lparr>operationHistory := operationHistory h1 @ [result],
                         pendingCommand := None, error := None, state := Ready\<rparr>
                  | Rejected e \<Rightarrow>
                      h1\<lparr>error := Some (thrownMessage e ExecuteFailed), state := Ready\<rparr>)))"

text \<open>\<open>cancelOperation\<close> (lines 164-179); the \<open>catch\<close> of the view fetch is empty.\<close>

definition cancelOperation :: "string promise \<Rightarrow> hook \<Rightarrow> hook" where
  "cancelOperation previewed h =
     (case sessionIdRef h of
        None \<Rightarrow> h
      | Some sid \<Rightarrow>
          if sid = [] then h
          else
            (let h1 = call (Api_getPreview sid) (h\<lparr>pendingCommand := None, error := None\<rparr>) in
             case previewed of
               Resolved v \<Rightarrow> h1\<lparr>svg := v, state := Ready\<rparr>
             | Rejected e \<Rightarrow> h1\<lparr>state := Ready\<rparr>))"

text \<open>\<open>undo\<close> (lines 188-201) and \<open>redo\<close> (lines 203-216)\<close>

definition undo :: "OperationResult promise \<Rightarrow> hook \<Rightarrow> hook" where
  "undo r h =
     (case sessionIdRef h of
        None \<Rightarrow> h
      | Some sid \<Rightarrow>
          if sid = [] then h
          else
            (let h1 = call (Api_undo sid) (h\<lparr>state := Executing\<rparr>) in
             case r of
               Resolved result \<Rightarrow>
                 h1\<lparr>svg := orEmpty (preview_svg result),
                    operationHistory := operationHistory h1 @ [result],
                    error := Some Undone, state := Ready\<rparr>
             | Rejected e \<Rightarrow> h1\<lparr>error := Some (thrownMessage e UndoFailed), state := Ready\<rparr>))"

definition redo :: "OperationResult promise \<Rightarrow> hook \<Rightarrow> hook" where
  "redo r h =
     (case sessionIdRef h of
        None \<Rightarrow> h
      | Some sid \<Rightarrow>
          if sid = [] then h
          else
            (let h1 = call (Api_redo sid) (h\<lparr>state := Executing\<rparr>) in
             case r of
               Resolved result \<Rightarrow>
                 h1\<lparr>svg := orEmpty (preview_svg result),
                    operationHistory := operationHistory h1 @ [result],
                    error := Some Redone, state := Ready\<rparr>
             | Rejected e \<Rightarrow> h1\<lparr>error := Some (thrownMessage e RedoFailed), state := Ready\<rparr>))"

text \<open>
  \<open>reset\<close> (lines 218-231). The release of the remote session is awaited with an empty
  \<open>catch\<close>, so its outcome \<open>released\<close> changes nothing.
\<close>

definition reset :: "unit promise \<Rightarrow> hook \<Rightarrow> hook" where
  "reset released h =
     (let h1 = (case sessionIdRef h of
                  None \<Rightarrow> h
                | Some sid \<Rightarrow> if sid = [] then h else call (Api_deleteSession sid) h) in
      h1\<lparr>sessionIdRef := None, dxfInfo := None, parts := [], svg := [],
         pendingCommand := None, operationHistory := [], error := None, state := Initial\<rparr>)"

section \<open>Runs of the hook\<close>

text \<open>
  A run is a sequence of calls of the hook's operations, each taken to completion before
  the next starts (the source has no lock; the single active operation is what its
  callers provide). An event names the operation, its arguments and the outcomes of the
  remote calls it awaits.
\<close>

datatype event =
    UploadFile string "DxfInfo promise" "string promise"
  | AnalyzePartsResolved "PartInfo list"
  | InterpretCommand string "string list" "InterpretResponse promise" "OperationResult promise"
  | PreviewOperation OperationCommand "OperationResult promise"
  | ExecuteOperation "OperationResult promise"
  | CancelOperation "string promise"
  | Undo "OperationResult promise"
  | Redo "OperationResult promise"
  | Reset "unit promise"

fun step :: "event \<Rightarrow> hook \<Rightarrow> hook" where
  "step (UploadFile file uploaded previewed) h = uploadFile file uploaded previewed h"
| "step (AnalyzePartsResolved partsdata) h = analyzePartsResolved partsdata h"
| "step (InterpretCommand txt selectedParts interpreted r) h =
     interpretCommand txt selectedParts interpreted r h"
| "step (PreviewOperation command r) h = previewOperation command r h"
| "step (ExecuteOperation r) h = executeOperation r h"
| "step (CancelOperation previewed) h = cancelOperation previewed h"
| "step (Undo r) h = undo r h"
| "step (Redo r) h = redo r h"
| "step (Reset released) h = reset released h"

definition run :: "event list \<Rightarrow> hook \<Rightarrow> hook" where
  "run evs h = fold step evs h"

subsection \<open>States with a remote call in flight\<close>





section \<open>Selection, hover and highlight (frontend/src/App.tsx)\<close>

text \<open>\<open>parts.find(p => p.part_name === partName)\<close>: the first part of that name.\<close>

definition findPart :: "PartInfo list \<Rightarrow> string \<Rightarrow> PartInfo option" where
  "findPart ps partName = find (\<lambda>p. part_name p = partName) ps"

text \<open>
  The loop of the highlight effect (lines 39-48): for each selected name whose part is
  found, push the anchor, then the linked handles when the field is there.
\<close>

definition pushPart :: "PartInfo list \<Rightarrow> string \<Rightarrow> string list \<Rightarrow> string list" where
  "pushPart ps partName selectedHandles =
     (case findPart ps partName of
        None \<Rightarrow> selectedHandles
      | Some part \<Rightarrow>
          (selectedHandles @ [text_handle part]) @
          (case linked_handles part of None \<Rightarrow> [] | Some ls \<Rightarrow> ls))"

definition selectedHandlesOf :: "PartInfo list \<Rightarrow> string list \<Rightarrow> string list" where
  "selectedHandlesOf ps selectedParts = fold (pushPart ps) selectedParts []"

text \<open>
  \<open>[...new Set(xs)]\<close>: a JavaScript \<open>Set\<close> keeps insertion order, so each value stays at
  its first occurrence.
\<close>

definition newSet :: "string list \<Rightarrow> string list" where
  "newSet xs = fold (\<lambda>x seen. if x \<in> set seen then seen else seen @ [x]) xs []"

text \<open>The value the effect stores in \<open>highlightedHandles\<close> (lines 51-52).\<close>

definition highlightedHandles :: "PartInfo list \<Rightarrow> string list \<Rightarrow> string list \<Rightarrow> string list" where
  "highlightedHandles ps selectedParts hoverHandles =
     newSet (selectedHandlesOf ps selectedParts @ hoverHandles)"

text \<open>
  \<open>handleHoverPart\<close> (lines 65-73) returns the new \<open>hoverHandles\<close>; when no part has the
  name, neither branch runs and the stored list stays. \<open>handleLeavePart\<close> (lines 75-77).
\<close>

definition handleHoverPart :: "PartInfo list \<Rightarrow> string \<Rightarrow> string list \<Rightarrow> string list" where
  "handleHoverPart ps partName hoverHandles =
     (case findPart ps partName of
        None \<Rightarrow> hoverHandles
      | Some part \<Rightarrow>
          (case linked_handles part of
             Some ls \<Rightarrow> text_handle part # ls
           | None \<Rightarrow> [text_handle part]))"

definition handleLeavePart :: "string list \<Rightarrow> string list" where
  "handleLeavePart hoverHandles = []"

text \<open>\<open>handleTogglePartSelection\<close> (lines 88-94), as the updater applied to \<open>prev\<close>.\<close>

definition handleTogglePartSelection :: "string \<Rightarrow> string list \<Rightarrow> string list" where
  "handleTogglePartSelection partName prev =
     (if partName \<in> set prev then filter (\<lambda>p. p \<noteq> partName) prev else prev @ [partName])"

definition handleSelectAll :: "PartInfo list \<Rightarrow> string list" where
  "handleSelectAll ps = map part_name ps"

definition handleClearSelection :: "string list" where
  "handleClearSelection = []"

text \<open>
  The identifiers of a part as the specification names them: its anchor identifier plus
  its linked identifiers.
\<close>

definition partIdentifiers :: "PartInfo \<Rightarrow> string set" where
  "partIdentifiers p =
     insert (text_handle p) (case linked_handles p of None \<Rightarrow> {} | Some ls \<Rightarrow> set ls)"

definition identifiersOf :: "PartInfo list \<Rightarrow> string \<Rightarrow> string set" where
  "identifiersOf ps partName =
     (case findPart ps partName of None \<Rightarrow> {} | Some p \<Rightarrow> partIdentifiers p)"

section \<open>Concrete sessions\<close>

definition demo_info :: DxfInfo where
  "demo_info = \<lparr> session_id = ''s1'', filename = ''a.dxf'', entity_count = 3,
     layers = [], colors_used = [] \<rparr>"

definition demo_command :: OperationCommand where
  "demo_command = \<lparr> operation = ''delete_by_color'', params = [(''color'', JStr ''yellow'')],
     confidence = 1, explanation = ''delete yellow lines'' \<rparr>"

definition demo_result :: OperationResult where
  "demo_result = \<lparr> success = True, affected_count = 12, message = ''ok'',
     preview_svg = Some ''<svg>1</svg>'' \<rparr>"

definition demo_result_no_view :: OperationResult where
  "demo_result_no_view = \<lparr> success = True, affected_count = 12, message = ''ok'',
     preview_svg = None \<rparr>"

text \<open>A session after a successful upload, and the same session with a preview shown.\<close>

definition demo_ready :: hook where
  "demo_ready = uploadFile ''a.dxf'' (Resolved demo_info) (Resolved ''<svg>0</svg>'') initial"

definition demo_previewing :: hook where
  "demo_previewing = previewOperation demo_command (Resolved demo_result) demo_ready"

text \<open>An upload whose session is created and whose initial view fetch then fails.\<close>

definition demo_partial :: hook where
  "demo_partial =
     uploadFile ''a.dxf'' (Resolved demo_info) (Rejected (ErrorObject ''view failed'')) initial"

definition demo_upload :: event where
  "demo_upload = UploadFile ''a.dxf'' (Resolved demo_info) (Resolved ''<svg>0</svg>'')"

definition demo_rejected_interpretation :: InterpretResponse where
  "demo_rejected_interpretation = \<lparr> interpret_success = False, commands = [],
     interpret_message = ''not understood'', used_ai = False \<rparr>"

text \<open>The two parts of the specification's hover scenario.\<close>

definition demo_parts :: "PartInfo list" where
  "demo_parts =
     [\<lparr> part_name = ''DF-01'', text_handle = ''DF-01-anchor'', linked_count = 2,
         part_confidence = 1, linked_handles = Some [''e1'', ''e2''], center = None \<rparr>,
      \<lparr> part_name = ''DF-02'', text_handle = ''DF-02-anchor'', linked_count = 1,
         part_confidence = 1, linked_handles = Some [''e3''], center = None \<rparr>]"

text \<open>A result by which the collaborator reports a failure, delivered in a response.\<close>

definition demo_failed_result :: OperationResult where
  "demo_failed_result = \<lparr> success = False, affected_count = 0, message = ''nothing to undo'',
     preview_svg = None \<rparr>"

text \<open>A run with a preview that is then cancelled, and the state in which the cancel waits.\<close>

definition demo_cancel_run :: "event list" where
  "demo_cancel_run =
     [demo_upload, PreviewOperation demo_command (Resolved demo_result),
      CancelOperation (Resolved ''<svg>0</svg>'')]"

definition demo_cancelling :: hook where
  "demo_cancelling =
     call (Api_getPreview ''s1'') (demo_previewing\<lparr>pendingCommand := None, error := None\<rparr>)"

text \<open>A session whose preview failed: \<open>ready\<close>, with the command still staged.\<close>

definition demo_failed_preview :: hook where
  "demo_failed_preview =
     previewOperation demo_command (Rejected (ErrorObject ''timeout'')) demo_ready"

text \<open>
  The invariants that link the session state, the session identifier and the pending
  command: \<open>pending_inv\<close> and \<open>session_inv\<close> hold between operations, \<open>visited_inv\<close> in every
  state passed through.
\<close>

definition pending_inv :: "hook \<Rightarrow> bool" where
  "pending_inv h = (if state h = Previewing then pendingCommand h \<noteq> None else True)"



section \<open>Basic facts\<close>

lemmas op_defs = uploadFile_def analyzePartsResolved_def previewOperation_def
  interpretCommand_def executeOperation_def cancelOperation_def undo_def redo_def reset_def
  call_def setSvgIfPresent_def orEmpty_def thrownMessage_def Let_def

lemmas demo_defs = demo_info_def demo_command_def demo_result_def demo_result_no_view_def
  demo_ready_def demo_previewing_def demo_partial_def demo_upload_def
  demo_rejected_interpretation_def demo_failed_result_def demo_cancel_run_def
  demo_cancelling_def demo_failed_preview_def initial_def

lemma demo_ready_fields:
  "sessionIdRef demo_ready = Some ''s1''" "state demo_ready = Ready"
  "svg demo_ready = ''<svg>0</svg>''" "originalSvg demo_ready = ''<svg>0</svg>''"
  "pendingCommand demo_ready = None" "operationHistory demo_ready = []"
  "error demo_ready = None" "dxfInfo demo_ready = Some demo_info"
  "issued demo_ready = [Api_uploadDxf ''a.dxf'', Api_getPreview ''s1'', Api_analyzeParts ''s1'']"
  by (simp_all add: demo_defs op_defs)

lemma demo_previewing_fields:
  "sessionIdRef demo_previewing = Some ''s1''" "state demo_previewing = Previewing"
  "svg demo_previewing = ''<svg>1</svg>''" "originalSvg demo_previewing = ''<svg>0</svg>''"
  "pendingCommand demo_previewing = Some demo_command" "operationHistory demo_previewing = []"
  "error demo_previewing = Some (AffectedEntities 12)"
  by (simp_all add: demo_defs op_defs)

lemma run_Nil: "run [] h = h"
  by (simp add: run_def)

lemma run_Cons: "run (e # evs) h = run evs (step e h)"
  by (simp add: run_def)

lemma run_snoc: "run (evs @ [e]) h = step e (run evs h)"
  by (simp add: run_def)

section \<open>Selection and highlight\<close>

lemma set_newSet_fold:
  "set (fold (\<lambda>x seen. if x \<in> set seen then seen else seen @ [x]) xs acc) = set acc \<union> set xs"
  by (induction xs arbitrary: acc) auto

lemma distinct_newSet_fold:
  "distinct acc \<Longrightarrow>
   distinct (fold (\<lambda>x seen. if x \<in> set seen then seen else seen @ [x]) xs acc)"
  by (induction xs arbitrary: acc) auto

lemma set_newSet: "set (newSet xs) = set xs"
  by (simp add: newSet_def set_newSet_fold)

lemma distinct_newSet: "distinct (newSet xs)"
  by (simp add: newSet_def distinct_newSet_fold)

lemma set_pushPart: "set (pushPart ps n acc) = set acc \<union> identifiersOf ps n"
  by (auto simp: pushPart_def identifiersOf_def partIdentifiers_def split: option.splits)

lemma set_fold_pushPart:
  "set (fold (pushPart ps) sel acc) = set acc \<union> (\<Union>n\<in>set sel. identifiersOf ps n)"
proof (induction sel arbitrary: acc)
  case Nil
  show ?case by simp
next
  case (Cons n sel)
  show ?case by (simp add: Cons.IH set_pushPart Un_assoc)
qed

lemma set_selectedHandlesOf:
  "set (selectedHandlesOf ps sel) = (\<Union>n\<in>set sel. identifiersOf ps n)"
  by (simp add: selectedHandlesOf_def set_fold_pushPart)

lemma set_highlightedHandles:
  "set (highlightedHandles ps sel hov) = (\<Union>n\<in>set sel. identifiersOf ps n) \<union> set hov"
  by (simp add: highlightedHandles_def set_newSet set_selectedHandlesOf)

lemma set_handleHoverPart_found:
  "findPart ps n = Some p \<Longrightarrow> set (handleHoverPart ps n hov) = partIdentifiers p"
  by (simp add: handleHoverPart_def partIdentifiers_def split: option.splits)

lemma selectedHandlesOf_absent:
  "findPart ps m = None \<Longrightarrow> selectedHandlesOf ps (sel @ [m]) = selectedHandlesOf ps sel"
  by (simp add: selectedHandlesOf_def pushPart_def)

text \<open>
  C6. For every part list, selection and stored hover list, the highlight list has no
  duplicates and its elements are exactly the identifiers (anchor plus linked) of the
  selected parts that the part list has, together with the stored hover identifiers.
  Hovering a part that the list has stores exactly that part's anchor and linked
  identifiers, so the highlight is then the union of the selected parts' identifiers and
  the hovered part's; after the pointer leaves, only the selected parts' identifiers
  remain. A name that the part list does not have contributes nothing: selected, it
  leaves the highlight list as it was, and hovered, it leaves the stored hover list as it
  was. No branch of the source throws on a missing part.
\<close>

theorem highlight_is_deduplicated_union:
  "distinct (highlightedHandles ps sel hov)
   \<and> set (highlightedHandles ps sel hov) = (\<Union>n\<in>set sel. identifiersOf ps n) \<union> set hov
   \<and> (findPart ps n = Some p \<longrightarrow>
        set (highlightedHandles ps sel (handleHoverPart ps n hov)) =
          (\<Union>n\<in>set sel. identifiersOf ps n) \<union> partIdentifiers p)
   \<and> set (highlightedHandles ps sel (handleLeavePart hov)) = (\<Union>n\<in>set sel. identifiersOf ps n)
   \<and> (findPart ps m = None \<longrightarrow>
        identifiersOf ps m = {}
        \<and> highlightedHandles ps (sel @ [m]) hov = highlightedHandles ps sel hov
        \<and> handleHoverPart ps m hov = hov)"
proof (intro conjI)
  show "distinct (highlightedHandles ps sel hov)"
    by (simp add: highlightedHandles_def distinct_newSet)
  show "set (highlightedHandles ps sel hov) = (\<Union>n\<in>set sel. identifiersOf ps n) \<union> set hov"
    by (rule set_highlightedHandles)
  show "findPart ps n = Some p \<longrightarrow>
      set (highlightedHandles ps sel (handleHoverPart ps n hov)) =
        (\<Union>n\<in>set sel. identifiersOf ps n) \<union> partIdentifiers p"
    by (simp add: set_highlightedHandles set_handleHoverPart_found)
  show "set (highlightedHandles ps sel (handleLeavePart hov)) =
      (\<Union>n\<in>set sel. identifiersOf ps n)"
    by (simp add: set_highlightedHandles handleLeavePart_def)
  show "findPart ps m = None \<longrightarrow>
      identifiersOf ps m = {}
      \<and> highlightedHandles ps (sel @ [m]) hov = highlightedHandles ps sel hov
      \<and> handleHoverPart ps m hov = hov"
    by (simp add: identifiersOf_def highlightedHandles_def selectedHandlesOf_absent
        handleHoverPart_def)
qed

lemma findPart_demo:
  "findPart demo_parts ''DF-01'' = Some (hd demo_parts)"
  "findPart demo_parts ''DF-02'' = Some (hd (tl demo_parts))"
  "findPart demo_parts ''DF-09'' = None"
  by (simp_all add: findPart_def demo_parts_def)

text \<open>
  The specification's scenario: hovering DF-01 (linked to e1, e2) while DF-02 (linked to
  e3) is selected; and a name the part list does not have.
\<close>

theorem highlight_is_deduplicated_union_witness:
  "set (highlightedHandles demo_parts [''DF-02''] (handleHoverPart demo_parts ''DF-01'' [])) =
     {''DF-01-anchor'', ''e1'', ''e2'', ''DF-02-anchor'', ''e3''}
   \<and> set (highlightedHandles demo_parts [''DF-02''] (handleLeavePart [''DF-01-anchor'', ''e1'', ''e2''])) =
     {''DF-02-anchor'', ''e3''}
   \<and> findPart demo_parts ''DF-01'' = Some (hd demo_parts)
   \<and> findPart demo_parts ''DF-09'' = None
   \<and> highlightedHandles demo_parts ([''DF-02''] @ [''DF-09'']) [] =
       highlightedHandles demo_parts [''DF-02''] []
   \<and> handleHoverPart demo_parts ''DF-09'' [] = []"
proof -
  note t = highlight_is_deduplicated_union [of demo_parts "[''DF-02'']" "[]" "''DF-01''"
      "hd demo_parts" "''DF-09''"]
  have f1: "findPart demo_parts ''DF-01'' = Some (hd demo_parts)"
    and f9: "findPart demo_parts ''DF-09'' = None"
    by (simp_all add: findPart_demo)
  have id2: "identifiersOf demo_parts ''DF-02'' = {''DF-02-anchor'', ''e3''}"
    by (simp add: identifiersOf_def findPart_demo) (simp add: partIdentifiers_def demo_parts_def)
  have id1: "partIdentifiers (hd demo_parts) = {''DF-01-anchor'', ''e1'', ''e2''}"
    by (simp add: partIdentifiers_def demo_parts_def)
  have un: "{''DF-02-anchor'', ''e3''} \<union> {''DF-01-anchor'', ''e1'', ''e2''} =
      {''DF-01-anchor'', ''e1'', ''e2'', ''DF-02-anchor'', ''e3''}"
    by (simp add: insert_commute)
  from t have "findPart demo_parts ''DF-01'' = Some (hd demo_parts) \<longrightarrow>
      set (highlightedHandles demo_parts [''DF-02''] (handleHoverPart demo_parts ''DF-01'' [])) =
      (\<Union>n\<in>set [''DF-02'']. identifiersOf demo_parts n) \<union> partIdentifiers (hd demo_parts)"
    by (elim conjE)
  with f1 have "set (highlightedHandles demo_parts [''DF-02''] (handleHoverPart demo_parts ''DF-01'' [])) =
      (\<Union>n\<in>set [''DF-02'']. identifiersOf demo_parts n) \<union> partIdentifiers (hd demo_parts)"
    by (rule rev_mp)
  then have a: "set (highlightedHandles demo_parts [''DF-02''] (handleHoverPart demo_parts ''DF-01'' [])) =
      {''DF-01-anchor'', ''e1'', ''e2'', ''DF-02-anchor'', ''e3''}"
    by (simp only: id1 id2 un set_simps UN_insert UN_empty Un_empty_right)
  have b: "set (highlightedHandles demo_parts [''DF-02''] (handleLeavePart [''DF-01-anchor'', ''e1'', ''e2''])) =
      {''DF-02-anchor'', ''e3''}"
    by (simp add: set_highlightedHandles handleLeavePart_def id2)
  from t have "findPart demo_parts ''DF-09'' = None \<longrightarrow>
       identifiersOf demo_parts ''DF-09'' = {}
       \<and> highlightedHandles demo_parts ([''DF-02''] @ [''DF-09'']) [] =
           highlightedHandles demo_parts [''DF-02''] []
       \<and> handleHoverPart demo_parts ''DF-09'' [] = []"
    by (elim conjE)
  with f9 have c: "identifiersOf demo_parts ''DF-09'' = {}
       \<and> highlightedHandles demo_parts ([''DF-02''] @ [''DF-09'']) [] =
           highlightedHandles demo_parts [''DF-02''] []
       \<and> handleHoverPart demo_parts ''DF-09'' [] = []"
    by (rule rev_mp)
  show ?thesis
    using a b c f1 f9 by (intro conjI) (elim conjE, assumption)+
qed

text \<open>
  C9. For every part name and every selection, toggling the part twice in succession gives
  a selection with the same members as the original one, and one toggle flips the
  membership of that part and of no other.
\<close>

theorem toggle_twice_same_membership:
  "set (handleTogglePartSelection partName (handleTogglePartSelection partName prev)) = set prev
   \<and> (partName \<in> set (handleTogglePartSelection partName prev)) = (partName \<notin> set prev)
   \<and> set (handleTogglePartSelection partName prev) - {partName} = set prev - {partName}"
  by (auto simp: handleTogglePartSelection_def)

section \<open>Preview, commit and cancel\<close>

lemma previewOperation_live:
  assumes "sessionIdRef h = Some sid" "sid \<noteq> []"
  shows "sessionIdRef (previewOperation c r h) = Some sid"
    and "issued (previewOperation c r h) =
           issued h @ [Api_previewOperation sid (operation c) (params c)]"
    and "operationHistory (previewOperation c r h) = operationHistory h"
    and "pendingCommand (previewOperation c r h) = Some c"
  using assms by (simp_all add: op_defs split: promise.splits option.splits)

text \<open>A run of previews only: the argument list pairs each command with its outcome.\<close>

lemma previews_only:
  assumes "sessionIdRef h = Some sid" "sid \<noteq> []"
  shows "sessionIdRef (run (map (\<lambda>(c, r). PreviewOperation c r) pvs) h) = Some sid
       \<and> issued (run (map (\<lambda>(c, r). PreviewOperation c r) pvs) h) =
           issued h @ map (\<lambda>(c, r). Api_previewOperation sid (operation c) (params c)) pvs
       \<and> operationHistory (run (map (\<lambda>(c, r). PreviewOperation c r) pvs) h) =
           operationHistory h"
  using assms
proof (induction pvs arbitrary: h)
  case Nil
  then show ?case by (simp add: run_Nil)
next
  case (Cons cr pvs)
  obtain c r where cr: "cr = (c, r)" by (cases cr)
  have live: "sessionIdRef (previewOperation c r h) = Some sid"
    using Cons.prems by (rule previewOperation_live(1))
  show ?case
    using Cons.IH [OF live Cons.prems(2)] previewOperation_live(2,3) [OF Cons.prems]
    by (simp add: cr run_Cons)
qed

text \<open>
  C2. With a live session (a session identifier that is set and not empty),
  \<open>cancelOperation\<close> clears the pending command and the notice, issues exactly one remote
  call, the fetch of the session's rendered view, and ends in \<open>ready\<close>, whatever the fetch
  does. When the fetch resolves the visible view is the fetched one; when it rejects the
  view is left as it was and no error is recorded. Consequently, after any number of
  previews (which issue preview calls only and leave the history alone) a cancel whose
  fetch resolves shows exactly the fetched view.
\<close>

theorem cancelOperation_restores_view:
  assumes "sessionIdRef h = Some sid" "sid \<noteq> []"
  shows "pendingCommand (cancelOperation fetched h) = None
       \<and> error (cancelOperation fetched h) = None
       \<and> state (cancelOperation fetched h) = Ready
       \<and> issued (cancelOperation fetched h) = issued h @ [Api_getPreview sid]
       \<and> svg (cancelOperation (Resolved v) h) = v
       \<and> svg (cancelOperation (Rejected e) h) = svg h
       \<and> issued (run (map (\<lambda>(c, r). PreviewOperation c r) pvs) h) =
           issued h @ map (\<lambda>(c, r). Api_previewOperation sid (operation c) (params c)) pvs
       \<and> operationHistory (run (map (\<lambda>(c, r). PreviewOperation c r) pvs) h) = operationHistory h
       \<and> svg (cancelOperation (Resolved v) (run (map (\<lambda>(c, r). PreviewOperation c r) pvs) h)) = v"
proof -
  have one: "pendingCommand (cancelOperation fetched h') = None
       \<and> error (cancelOperation fetched h') = None
       \<and> state (cancelOperation fetched h') = Ready
       \<and> issued (cancelOperation fetched h') = issued h' @ [Api_getPreview sid]"
    if "sessionIdRef h' = Some sid" for h' fetched
    using that assms(2) by (simp add: op_defs split: promise.splits)
  have view: "svg (cancelOperation (Resolved v) h') = v \<and> svg (cancelOperation (Rejected e) h') = svg h'"
    if "sessionIdRef h' = Some sid" for h'
    using that assms(2) by (simp add: op_defs)
  note p = previews_only [OF assms, of pvs]
  from p have live: "sessionIdRef (run (map (\<lambda>(c, r). PreviewOperation c r) pvs) h) = Some sid"
    by (elim conjE)
  show ?thesis
    using one [OF assms(1), of fetched] view [OF assms(1)] view [OF live] p
    by (intro conjI) (elim conjE, assumption)+
qed

theorem cancelOperation_restores_view_witness:
  "sessionIdRef demo_previewing = Some ''s1''
   \<and> svg demo_previewing = ''<svg>1</svg>''
   \<and> pendingCommand (cancelOperation (Resolved ''<svg>0</svg>'') demo_previewing) = None
   \<and> error (cancelOperation (Resolved ''<svg>0</svg>'') demo_previewing) = None
   \<and> state (cancelOperation (Resolved ''<svg>0</svg>'') demo_previewing) = Ready
   \<and> svg (cancelOperation (Resolved ''<svg>0</svg>'') demo_previewing) = ''<svg>0</svg>''
   \<and> svg (cancelOperation (Rejected OtherThrown) demo_previewing) = ''<svg>1</svg>''
   \<and> svg (cancelOperation (Resolved ''<svg>0</svg>'')
        (run (map (\<lambda>(c, r). PreviewOperation c r)
           [(demo_command, Resolved demo_result), (demo_command, Resolved demo_result_no_view)])
           demo_ready)) = ''<svg>0</svg>''"
proof -
  have ne: "''s1'' \<noteq> []" by simp
  note a = cancelOperation_restores_view [OF demo_previewing_fields(1) ne,
      of "Resolved ''<svg>0</svg>''" "''<svg>0</svg>''" OtherThrown "[]"]
  note b = cancelOperation_restores_view [OF demo_ready_fields(1) ne,
      of "Resolved ''<svg>0</svg>''" "''<svg>0</svg>''" OtherThrown
        "[(demo_command, Resolved demo_result), (demo_command, Resolved demo_result_no_view)]"]
  show ?thesis
    using a b demo_previewing_fields(1,3)
    by (simp only: simp_thms)
qed

section \<open>The pending command\<close>

lemma pending_inv_initial: "pending_inv initial"
  by (simp add: pending_inv_def initial_def)

lemma pending_inv_step: "pending_inv h \<Longrightarrow> pending_inv (step e h)"
  by (cases e)
    (auto simp: pending_inv_def op_defs split: option.splits promise.splits list.splits if_splits)

lemma pending_inv_run: "pending_inv h \<Longrightarrow> pending_inv (run evs h)"
  by (induction evs rule: rev_induct) (simp_all add: run_Nil run_snoc pending_inv_step)

lemma previewing_has_pending:
  "state (run evs initial) = Previewing \<Longrightarrow> pendingCommand (run evs initial) \<noteq> None"
  using pending_inv_run [OF pending_inv_initial, of evs] by (simp add: pending_inv_def)














text \<open>
  C3, as amended. With a live session, a preview whose remote call rejects returns the
  session to \<open>ready\<close> with the failure recorded and leaves the staged command pending; a
  following \<open>executeOperation\<close> issues the commit call for that command. Without a pending
  command, and likewise without a live session, \<open>executeOperation\<close> issues no remote call
  and changes no state.
\<close>

theorem failed_preview_keeps_pending:
  "(sessionIdRef h = Some sid \<and> sid \<noteq> [] \<longrightarrow>
       state (previewOperation c (Rejected e) h) = Ready
     \<and> error (previewOperation c (Rejected e) h) = Some (thrownMessage e PreviewFailed)
     \<and> pendingCommand (previewOperation c (Rejected e) h) = Some c
     \<and> svg (previewOperation c (Rejected e) h) = svg h
     \<and> issued (executeOperation r (previewOperation c (Rejected e) h)) =
         issued h @ [Api_previewOperation sid (operation c) (params c),
                     Api_executeOperation sid (operation c) (params c)])
   \<and> (pendingCommand h = None \<longrightarrow> executeOperation r h = h)
   \<and> (sessionIdRef h = None \<longrightarrow> executeOperation r h = h)
   \<and> (sessionIdRef h = Some [] \<longrightarrow> executeOperation r h = h)"
  by (simp add: op_defs split: promise.splits option.splits)

theorem failed_preview_keeps_pending_witness:
  "sessionIdRef demo_ready = Some ''s1''
   \<and> pendingCommand demo_ready = None
   \<and> state (previewOperation demo_command (Rejected (ErrorObject ''timeout'')) demo_ready) = Ready
   \<and> error (previewOperation demo_command (Rejected (ErrorObject ''timeout'')) demo_ready) =
       Some (Message ''timeout'')
   \<and> pendingCommand (previewOperation demo_command (Rejected (ErrorObject ''timeout'')) demo_ready) =
       Some demo_command
   \<and> executeOperation (Resolved demo_result) demo_ready = demo_ready
   \<and> sessionIdRef initial = None
   \<and> executeOperation (Resolved demo_result) initial = initial"
proof -
  have ne: "''s1'' \<noteq> []" by simp
  have i: "sessionIdRef initial = None" by (simp add: initial_def)
  note t = failed_preview_keeps_pending
    [of demo_ready "''s1''" demo_command "ErrorObject ''timeout''" "Resolved demo_result"]
  note u = failed_preview_keeps_pending
    [of initial "''s1''" demo_command "ErrorObject ''timeout''" "Resolved demo_result"]
  show ?thesis
    using t u ne i demo_ready_fields(1,5)
    by (simp add: thrownMessage_def)
qed

text \<open>
  C3 as stated fails: after the failed preview the command is still pending, and the
  following \<open>executeOperation\<close> commits it (a commit call is issued and its result is
  appended to the history).
\<close>

theorem execute_after_failed_preview_commits:
  "pendingCommand (previewOperation demo_command (Rejected (ErrorObject ''timeout'')) demo_ready) =
     Some demo_command
   \<and> issued (executeOperation (Resolved demo_result)
        (previewOperation demo_command (Rejected (ErrorObject ''timeout'')) demo_ready)) =
       [Api_uploadDxf ''a.dxf'', Api_getPreview ''s1'', Api_analyzeParts ''s1'',
        Api_previewOperation ''s1'' ''delete_by_color'' [(''color'', JStr ''yellow'')],
        Api_executeOperation ''s1'' ''delete_by_color'' [(''color'', JStr ''yellow'')]]
   \<and> operationHistory (executeOperation (Resolved demo_result)
        (previewOperation demo_command (Rejected (ErrorObject ''timeout'')) demo_ready)) =
       [demo_result]"
  by (simp add: demo_defs op_defs)

text \<open>
  C4, as amended. With a live session and a pending command, a commit whose remote call
  rejects reports the error and returns to \<open>ready\<close>; exactly one remote call, the commit,
  has been issued (no retry), the history and the view are unchanged, and the pending
  command is left as it was, still staged.
\<close>

theorem failed_commit_keeps_pending:
  assumes "sessionIdRef h = Some sid" "sid \<noteq> []" "pendingCommand h = Some c"
  shows "error (executeOperation (Rejected e) h) = Some (thrownMessage e ExecuteFailed)
       \<and> state (executeOperation (Rejected e) h) = Ready
       \<and> issued (executeOperation (Rejected e) h) =
           issued h @ [Api_executeOperation sid (operation c) (params c)]
       \<and> operationHistory (executeOperation (Rejected e) h) = operationHistory h
       \<and> svg (executeOperation (Rejected e) h) = svg h
       \<and> pendingCommand (executeOperation (Rejected e) h) = Some c"
  using assms by (simp add: op_defs)

theorem failed_commit_keeps_pending_witness:
  "error (executeOperation (Rejected (ErrorObject ''commit failed'')) demo_previewing) =
     Some (Message ''commit failed'')
   \<and> state (executeOperation (Rejected (ErrorObject ''commit failed'')) demo_previewing) = Ready
   \<and> operationHistory (executeOperation (Rejected (ErrorObject ''commit failed'')) demo_previewing) = []
   \<and> svg (executeOperation (Rejected (ErrorObject ''commit failed'')) demo_previewing) = ''<svg>1</svg>''"
proof -
  have ne: "''s1'' \<noteq> []" by simp
  note t = failed_commit_keeps_pending
    [OF demo_previewing_fields(1) ne demo_previewing_fields(5), of "ErrorObject ''commit failed''"]
  show ?thesis
    using t by (simp add: thrownMessage_def demo_previewing_fields)
qed

text \<open>
  C4 as stated fails: after a commit whose remote call rejects, the pending command is not
  cleared.
\<close>

theorem failed_commit_pending_not_cleared:
  "pendingCommand (executeOperation (Rejected (ErrorObject ''commit failed'')) demo_previewing) =
     Some demo_command
   \<and> pendingCommand (executeOperation (Rejected (ErrorObject ''commit failed'')) demo_previewing) \<noteq>
     None"
  by (simp add: demo_defs op_defs)

section \<open>History\<close>

text \<open>
  What the history does when the remote call of an undo, redo or commit resolves, and when
  it rejects. The result of a call that resolves is appended whatever it says; only a
  rejected call leaves the history as it was, records the error and ends in \<open>ready\<close>.
\<close>

lemma history_after_resolve_and_reject:
  "(sessionIdRef h = Some sid \<and> sid \<noteq> [] \<longrightarrow>
       operationHistory (undo (Resolved result) h) = operationHistory h @ [result]
     \<and> operationHistory (redo (Resolved result) h) = operationHistory h @ [result]
     \<and> error (undo (Resolved result) h) = Some Undone
     \<and> error (redo (Resolved result) h) = Some Redone
     \<and> error (undo (Rejected e) h) = Some (thrownMessage e UndoFailed)
     \<and> state (undo (Rejected e) h) = Ready
     \<and> error (redo (Rejected e) h) = Some (thrownMessage e RedoFailed)
     \<and> state (redo (Rejected e) h) = Ready)
   \<and> (sessionIdRef h = Some sid \<and> sid \<noteq> [] \<and> pendingCommand h = Some c \<longrightarrow>
       operationHistory (executeOperation (Resolved result) h) = operationHistory h @ [result]
     \<and> error (executeOperation (Resolved result) h) = None
     \<and> error (executeOperation (Rejected e) h) = Some (thrownMessage e ExecuteFailed)
     \<and> state (executeOperation (Rejected e) h) = Ready)
   \<and> operationHistory (undo (Rejected e) h) = operationHistory h
   \<and> operationHistory (redo (Rejected e) h) = operationHistory h
   \<and> operationHistory (executeOperation (Rejected e) h) = operationHistory h"
  by (simp add: op_defs split: option.splits)

text \<open>
  C5 at a concrete input: an undo with no prior commit, to which the collaborator answers
  with a result that reports failure (\<open>success\<close> is false). The result is appended, so the
  history has length 1 and not 0, the notice is the fixed text for a done undo and not an
  error, and the session is \<open>ready\<close>. A redo and a commit treat such a result the same
  way; the commit also clears the pending command and the notice.
\<close>

theorem failure_result_is_logged:
  "\<not> success demo_failed_result
   \<and> operationHistory demo_ready = []
   \<and> operationHistory (undo (Resolved demo_failed_result) demo_ready) = [demo_failed_result]
   \<and> length (operationHistory (undo (Resolved demo_failed_result) demo_ready)) = 1
   \<and> error (undo (Resolved demo_failed_result) demo_ready) = Some Undone
   \<and> state (undo (Resolved demo_failed_result) demo_ready) = Ready
   \<and> operationHistory (redo (Resolved demo_failed_result) demo_ready) = [demo_failed_result]
   \<and> error (redo (Resolved demo_failed_result) demo_ready) = Some Redone
   \<and> operationHistory (executeOperation (Resolved demo_failed_result) demo_previewing) =
       [demo_failed_result]
   \<and> error (executeOperation (Resolved demo_failed_result) demo_previewing) = None
   \<and> pendingCommand (executeOperation (Resolved demo_failed_result) demo_previewing) = None
   \<and> state (executeOperation (Resolved demo_failed_result) demo_previewing) = Ready"
  by (simp add: demo_defs op_defs)

text \<open>
  C10. With a live session, in any state, an undo or a redo whose call resolves with a
  result that carries no rendered view replaces the visible view by the empty string,
  whereas \<open>executeOperation\<close> with such a result leaves the visible view unchanged; when a
  command is pending that commit is carried out (the result is appended to the history
  and the session is \<open>ready\<close>).
\<close>

theorem undo_redo_blank_the_view:
  assumes "sessionIdRef h = Some sid" "sid \<noteq> []" "preview_svg result = None"
  shows "svg (undo (Resolved result) h) = []
       \<and> svg (redo (Resolved result) h) = []
       \<and> svg (executeOperation (Resolved result) h) = svg h
       \<and> (pendingCommand h = Some c \<longrightarrow>
            operationHistory (executeOperation (Resolved result) h) = operationHistory h @ [result]
          \<and> state (executeOperation (Resolved result) h) = Ready)"
  using assms by (simp add: op_defs split: option.splits)

text \<open>An undo and a redo in \<open>ready\<close> with nothing pending, and a commit of a shown preview.\<close>

theorem undo_redo_blank_the_view_witness:
  "svg demo_ready = ''<svg>0</svg>''
   \<and> pendingCommand demo_ready = None
   \<and> svg (undo (Resolved demo_result_no_view) demo_ready) = []
   \<and> svg (redo (Resolved demo_result_no_view) demo_ready) = []
   \<and> svg demo_previewing = ''<svg>1</svg>''
   \<and> pendingCommand demo_previewing = Some demo_command
   \<and> svg (undo (Resolved demo_result_no_view) demo_previewing) = []
   \<and> svg (redo (Resolved demo_result_no_view) demo_previewing) = []
   \<and> svg (executeOperation (Resolved demo_result_no_view) demo_previewing) = ''<svg>1</svg>''
   \<and> operationHistory (executeOperation (Resolved demo_result_no_view) demo_previewing) =
       [demo_result_no_view]
   \<and> state (executeOperation (Resolved demo_result_no_view) demo_previewing) = Ready"
proof -
  have ne: "''s1'' \<noteq> []" by simp
  have nv: "preview_svg demo_result_no_view = None" by (simp add: demo_result_no_view_def)
  note t = undo_redo_blank_the_view [OF demo_ready_fields(1) ne nv, of demo_command]
  note u = undo_redo_blank_the_view [OF demo_previewing_fields(1) ne nv, of demo_command]
  show ?thesis
    using t u demo_ready_fields(3,5) demo_previewing_fields(3,5,6) by simp
qed

section \<open>Upload and reset\<close>

lemma uploadFile_creation_fails:
  "state (uploadFile file (Rejected e) fetched h) = Error"
  "error (uploadFile file (Rejected e) fetched h) = Some (thrownMessage e UploadFailed)"
  "sessionIdRef (uploadFile file (Rejected e) fetched h) = sessionIdRef h"
  "dxfInfo (uploadFile file (Rejected e) fetched h) = dxfInfo h"
  "issued (uploadFile file (Rejected e) fetched h) = issued h @ [Api_uploadDxf file]"
  by (simp_all add: op_defs)

lemma uploadFile_view_fails:
  "state (uploadFile file (Resolved info) (Rejected e) h) = Error"
  "error (uploadFile file (Resolved info) (Rejected e) h) = Some (thrownMessage e UploadFailed)"
  "sessionIdRef (uploadFile file (Resolved info) (Rejected e) h) = Some (session_id info)"
  "dxfInfo (uploadFile file (Resolved info) (Rejected e) h) = Some info"
  by (simp_all add: op_defs)

lemma uploadFile_succeeds:
  "state (uploadFile file (Resolved info) (Resolved v) h) = Ready"
  "error (uploadFile file (Resolved info) (Resolved v) h) = None"
  "sessionIdRef (uploadFile file (Resolved info) (Resolved v) h) = Some (session_id info)"
  "svg (uploadFile file (Resolved info) (Resolved v) h) = v"
  "originalSvg (uploadFile file (Resolved info) (Resolved v) h) = v"
  by (simp_all add: op_defs)

lemma reset_fields:
  "sessionIdRef (reset released h) = None" "dxfInfo (reset released h) = None"
  "parts (reset released h) = []" "svg (reset released h) = []"
  "pendingCommand (reset released h) = None" "operationHistory (reset released h) = []"
  "error (reset released h) = None" "state (reset released h) = Initial"
  "originalSvg (reset released h) = originalSvg h"
  by (simp_all add: op_defs split: option.splits)

text \<open>
  C7 at a concrete input: the session is created and the fetch of the initial view then
  fails. The state is \<open>error\<close> and the message is recorded, but the session identifier and
  the document info stay set, no view is stored, and a following undo is issued against
  that session and ends in \<open>ready\<close>.
\<close>

theorem failed_initial_view_leaves_session:
  "state demo_partial = Error
   \<and> error demo_partial = Some (Message ''view failed'')
   \<and> sessionIdRef demo_partial = Some ''s1''
   \<and> dxfInfo demo_partial = Some demo_info
   \<and> svg demo_partial = []
   \<and> issued demo_partial = [Api_uploadDxf ''a.dxf'', Api_getPreview ''s1'']
   \<and> issued (undo (Resolved demo_result) demo_partial) =
       [Api_uploadDxf ''a.dxf'', Api_getPreview ''s1'', Api_undo ''s1'']
   \<and> state (undo (Resolved demo_result) demo_partial) = Ready
   \<and> operationHistory (undo (Resolved demo_result) demo_partial) = [demo_result]"
  by (simp add: demo_defs op_defs)

text \<open>
  C8 at a concrete input: a reset of a loaded session whose remote release fails. The
  session identifier, document info, parts, current view, pending command, history and
  error are cleared and the state is \<open>initial\<close>, but the original view is still the one of
  the session that was reset.
\<close>

theorem reset_keeps_original_view:
  "originalSvg demo_previewing = ''<svg>0</svg>''
   \<and> originalSvg (reset (Rejected OtherThrown) demo_previewing) = ''<svg>0</svg>''
   \<and> originalSvg initial = []
   \<and> sessionIdRef (reset (Rejected OtherThrown) demo_previewing) = None
   \<and> dxfInfo (reset (Rejected OtherThrown) demo_previewing) = None
   \<and> parts (reset (Rejected OtherThrown) demo_previewing) = []
   \<and> svg (reset (Rejected OtherThrown) demo_previewing) = []
   \<and> pendingCommand (reset (Rejected OtherThrown) demo_previewing) = None
   \<and> operationHistory (reset (Rejected OtherThrown) demo_previewing) = []
   \<and> error (reset (Rejected OtherThrown) demo_previewing) = None
   \<and> state (reset (Rejected OtherThrown) demo_previewing) = Initial"
  by (simp add: demo_defs op_defs)

end
